theory Spec2Isabelle
  imports Main "HOL-Library.Multiset"
begin

section \<open>The conversation service of backend/app.py\<close>

text \<open>
  The service has two HTTP handlers, \<open>generate\<close> and \<open>history\<close>, over one SQLite
  table \<open>conversations\<close>. The handlers are embedded as functions on an explicit request
  state: the Flask context \<open>g\<close>, the database file, and the list of effects the request
  has performed so far. An exception of the Python code is a value of type \<open>exn\<close>.
\<close>

subsection \<open>Python strings\<close>

text \<open>
  A Python \<open>str\<close> is a sequence of Unicode code points; a code point is a \<open>nat\<close>.
  \<open>str_of\<close> turns an ASCII literal into such a sequence.
\<close>

type_synonym pystr = "nat list"

definition str_of :: "string \<Rightarrow> pystr" where
  "str_of s = map of_char s"

text \<open>The code points for which \<open>str.isspace\<close> holds: these are what \<open>str.strip()\<close> removes.\<close>

definition isspace :: "nat \<Rightarrow> bool" where
  "isspace c =
     ((9 \<le> c \<and> c \<le> 13) \<or> (28 \<le> c \<and> c \<le> 32) \<or> c = 133 \<or> c = 160 \<or> c = 5760
      \<or> (8192 \<le> c \<and> c \<le> 8202) \<or> c = 8232 \<or> c = 8233 \<or> c = 8239 \<or> c = 8287
      \<or> c = 12288)"

definition strip :: "pystr \<Rightarrow> pystr" where
  "strip s = rev (dropWhile isspace (rev (dropWhile isspace s)))"

subsection \<open>Exceptions, JSON values, responses\<close>

datatype exn =
    BadRequest
  | AttributeError
  | OracleError
  | OperationalError
  | OverflowError
  | ProgrammingError
  | UnicodeEncodeError
  | DataError

datatype json =
    JNull
  | JBool bool
  | JNum int
  | JStr pystr
  | JArr "json list"
  | JObj "(pystr \<times> json) list"

text \<open>
  The handlers never look into a JSON number, so \<open>JNum\<close> carries an integer only.

  What the client receives: a JSON document with a status, or the framework's error page
  for an exception that left the handler.
\<close>

datatype response = Json nat json | ErrorPage nat exn

fun status :: "response \<Rightarrow> nat" where
  "status (Json n _) = n"
| "status (ErrorPage n _) = n"

text \<open>Flask answers a \<open>BadRequest\<close> with 400 and any other exception with 500.\<close>

fun exn_status :: "exn \<Rightarrow> nat" where
  "exn_status BadRequest = 400"
| "exn_status _ = 500"

fun respond :: "exn + nat \<times> json \<Rightarrow> response" where
  "respond (Inl e) = ErrorPage (exn_status e) e"
| "respond (Inr (n, j)) = Json n j"

subsection \<open>The database file\<close>

text \<open>
  A row of \<open>conversations\<close>. \<open>created_at\<close> is the value of \<open>CURRENT_TIMESTAMP\<close> at the
  insert, a time with a resolution of one second, kept as the number of seconds:
  the order of \<open>datetime(created_at)\<close> is the order of these numbers.
\<close>

record row =
  row_id :: nat
  prompt :: pystr
  response :: pystr
  created_at :: nat

text \<open>
  The table holds its rows in insertion order, and \<open>last_id\<close>, the largest id given so far
  (the \<open>sqlite_sequence\<close> entry of an \<open>AUTOINCREMENT\<close> key). The file may not have the
  table yet, and may not be writable.
\<close>

record table =
  rows :: "row list"
  last_id :: nat

record dbfile =
  conversations :: "table option"
  writable :: bool

definition records :: "dbfile \<Rightarrow> row list" where
  "records f = (case conversations f of None \<Rightarrow> [] | Some t \<Rightarrow> rows t)"

text \<open>A connection holds the rows of its open transaction, not yet committed.\<close>

record conn =
  pending :: "row list"

datatype event = Oracle pystr | Connect | Insert | Select | Commit | Close

text \<open>The state of one request: \<open>g._db\<close>, the database file, the effects so far.\<close>

record req_state =
  g_db :: "conn option"
  db :: dbfile
  trace :: "event list"

definition log :: "event \<Rightarrow> req_state \<Rightarrow> req_state" where
  "log e s = s\<lparr>trace := trace s @ [e]\<rparr>"

definition fresh :: "dbfile \<Rightarrow> req_state" where
  "fresh f = \<lparr>g_db = None, db = f, trace = []\<rparr>"

subsection \<open>get_db, close_db, init_db\<close>

definition get_db :: "req_state \<Rightarrow> req_state" where
  "get_db s =
     (case g_db s of
        None \<Rightarrow> log Connect (s\<lparr>g_db := Some \<lparr>pending = []\<rparr>\<rparr>)
      | Some c \<Rightarrow> s)"

text \<open>Closing a connection drops what it has not committed.\<close>

definition close_db :: "req_state \<Rightarrow> req_state" where
  "close_db s =
     (case g_db s of
        None \<Rightarrow> s
      | Some c \<Rightarrow> log Close (s\<lparr>g_db := None\<rparr>))"

text \<open>
  \<open>CREATE TABLE IF NOT EXISTS\<close>, committed, on a connection of its own. The statement
  is a write: it is taken to fail on a file that cannot be written.
\<close>

definition init_db :: "dbfile \<Rightarrow> exn + dbfile" where
  "init_db f =
     (if \<not> writable f then Inl OperationalError
      else case conversations f of
        None \<Rightarrow> Inr (f\<lparr>conversations := Some \<lparr>rows = [], last_id = 0\<rparr>\<rparr>)
      | Some t \<Rightarrow> Inr f)"

subsection \<open>The statements\<close>

text \<open>
  A text bound to a statement is encoded as UTF-8, which a string with a surrogate code
  point (U+D800 to U+DFFF) has not: binding it raises \<open>UnicodeEncodeError\<close>.
\<close>

definition encodable :: "pystr \<Rightarrow> bool" where
  "encodable s = list_all (\<lambda>c. c < 55296 \<or> 57343 < c) s"

text \<open>
  The encoded text must not be longer than SQLite's limit of 1000000000 bytes, or the
  binding fails (\<open>DataError\<close>; beyond \<open>INT_MAX\<close> bytes the module raises
  \<open>OverflowError\<close> before it asks SQLite).
\<close>

definition utf8_size :: "pystr \<Rightarrow> nat" where
  "utf8_size s =
     sum_list (map (\<lambda>c. if c < 128 then 1 else if c < 2048 then 2
                          else if c < 65536 then 3 else 4) s)"

definition bind_text :: "pystr \<Rightarrow> exn option" where
  "bind_text s =
     (if \<not> encodable s then Some UnicodeEncodeError
      else if 2147483647 < utf8_size s then Some OverflowError
      else if 1000000000 < utf8_size s then Some DataError
      else None)"

definition storable :: "pystr \<Rightarrow> bool" where
  "storable s = (bind_text s = None)"

text \<open>
  \<open>INSERT INTO conversations (prompt, response) VALUES (?, ?)\<close>: the statement is
  prepared (the table must exist), the two texts are bound, and the row is written: the id
  is the next one of the sequence, the time is the clock's. The row stays in the
  transaction.
\<close>

definition execute_insert :: "nat \<Rightarrow> pystr \<Rightarrow> pystr \<Rightarrow> req_state \<Rightarrow> exn + req_state" where
  "execute_insert now p r s =
     (case g_db s of
        None \<Rightarrow> Inl ProgrammingError
      | Some c \<Rightarrow>
          (case conversations (db s) of
             None \<Rightarrow> Inl OperationalError
           | Some t \<Rightarrow>
               (case bind_text p of
                  Some e \<Rightarrow> Inl e
                | None \<Rightarrow>
               (case bind_text r of
                  Some e \<Rightarrow> Inl e
                | None \<Rightarrow>
               if \<not> writable (db s) then Inl OperationalError
               else Inr (s\<lparr>g_db := Some (c\<lparr>pending := pending c @
                      [\<lparr>row_id = last_id t + length (pending c) + 1, prompt = p,
                        response = r, created_at = now\<rparr>]\<rparr>)\<rparr>)))))"

definition commit :: "req_state \<Rightarrow> exn + req_state" where
  "commit s =
     (case g_db s of
        None \<Rightarrow> Inl ProgrammingError
      | Some c \<Rightarrow>
          (case conversations (db s) of
             None \<Rightarrow> Inr s
           | Some t \<Rightarrow>
               Inr (s\<lparr>g_db := Some (c\<lparr>pending := []\<rparr>),
                      db := (db s)\<lparr>conversations :=
                        Some \<lparr>rows = rows t @ pending c,
                              last_id = last_id t + length (pending c)\<rparr>\<rparr>\<rparr>)))"

text \<open>\<open>ORDER BY datetime(created_at) DESC, id DESC\<close>: \<open>not_after a b\<close> lets a stand before b.\<close>

definition not_after :: "row \<Rightarrow> row \<Rightarrow> bool" where
  "not_after a b =
     (created_at b < created_at a \<or> (created_at a = created_at b \<and> row_id b \<le> row_id a))"

fun place :: "row \<Rightarrow> row list \<Rightarrow> row list" where
  "place r [] = [r]"
| "place r (x # xs) = (if not_after r x then r # x # xs else x # place r xs)"

fun order_by :: "row list \<Rightarrow> row list" where
  "order_by [] = []"
| "order_by (r # rs) = place r (order_by rs)"

text \<open>
  \<open>LIMIT ? OFFSET ?\<close> as SQLite reads them: a negative limit is no limit, a negative
  offset is no offset.
\<close>

definition limit_offset :: "int \<Rightarrow> int \<Rightarrow> 'a list \<Rightarrow> 'a list" where
  "limit_offset limit offset xs =
     (let ys = drop (nat offset) xs in if limit < 0 then ys else take (nat limit) ys)"

definition list_recent :: "int \<Rightarrow> int \<Rightarrow> row list \<Rightarrow> row list" where
  "list_recent limit offset rs = limit_offset limit offset (order_by rs)"

text \<open>A Python int bound to a statement must fit SQLite's 64-bit integer.\<close>

definition fits_int64 :: "int \<Rightarrow> bool" where
  "fits_int64 n = (- (2 ^ 63) \<le> n \<and> n < 2 ^ 63)"

definition execute_select :: "int \<Rightarrow> int \<Rightarrow> req_state \<Rightarrow> exn + row list" where
  "execute_select limit offset s =
     (case g_db s of
        None \<Rightarrow> Inl ProgrammingError
      | Some c \<Rightarrow>
          (case conversations (db s) of
             None \<Rightarrow> Inl OperationalError
           | Some t \<Rightarrow>
               if \<not> (fits_int64 limit \<and> fits_int64 offset) then Inl OverflowError
               else Inr (list_recent limit offset (rows t @ pending c))))"

subsection \<open>POST /generate\<close>

text \<open>
  \<open>request.get_json(force=True)\<close>: the body is \<open>None\<close> when it is not valid JSON,
  and then the call raises \<open>BadRequest\<close>.
\<close>

definition get_json :: "json option \<Rightarrow> exn + json" where
  "get_json body = (case body of None \<Rightarrow> Inl BadRequest | Some j \<Rightarrow> Inr j)"

text \<open>
  \<open>data.get(k, d)\<close>: only a JSON object is a dict, any other value has no \<open>get\<close>.
  The pairs of \<open>JObj\<close> are the items of the dict.
\<close>

fun dict_get :: "json \<Rightarrow> pystr \<Rightarrow> json \<Rightarrow> exn + json" where
  "dict_get (JObj kvs) k d = Inr (case map_of kvs k of None \<Rightarrow> d | Some v \<Rightarrow> v)"
| "dict_get _ k d = Inl AttributeError"

text \<open>\<open>v.strip()\<close>: only a string has \<open>strip\<close>.\<close>

fun str_strip :: "json \<Rightarrow> exn + pystr" where
  "str_strip (JStr s) = Inr (strip s)"
| "str_strip _ = Inl AttributeError"

text \<open>
  Lines 91 to 110: the chat template, the tokenizer, the model and the decoder are the
  external \<open>model\<close>, which gives the decoded text or raises (\<open>None\<close>); the reply is
  that text stripped.
\<close>

definition complete :: "(pystr \<Rightarrow> pystr option) \<Rightarrow> pystr \<Rightarrow> exn + pystr" where
  "complete model p =
     (case model p of None \<Rightarrow> Inl OracleError | Some text \<Rightarrow> Inr (strip text))"

definition generate ::
  "(pystr \<Rightarrow> pystr option) \<Rightarrow> nat \<Rightarrow> json option \<Rightarrow> req_state \<Rightarrow> (exn + nat \<times> json) \<times> req_state"
where
  "generate model now body s0 =
     (case get_json body of
        Inl e \<Rightarrow> (Inl e, s0)
      | Inr data \<Rightarrow>
     (case dict_get data (str_of ''prompt'') (JStr []) of
        Inl e \<Rightarrow> (Inl e, s0)
      | Inr v \<Rightarrow>
     (case str_strip v of
        Inl e \<Rightarrow> (Inl e, s0)
      | Inr p \<Rightarrow>
     (let s1 = log (Oracle p) s0 in
      case complete model p of
        Inl e \<Rightarrow> (Inl e, s1)
      | Inr reply \<Rightarrow>
     (let s2 = log Insert (get_db s1) in
      case execute_insert now p reply s2 of
        Inl e \<Rightarrow> (Inl e, s2)
      | Inr s3 \<Rightarrow>
     (let s4 = log Commit s3 in
      case commit s4 of
        Inl e \<Rightarrow> (Inl e, s4)
      | Inr s5 \<Rightarrow> (Inr (200, JObj [(str_of ''reply'', JStr reply)]), s5)))))))"

subsection \<open>GET /history\<close>

text \<open>
  \<open>int(s)\<close> on a string, as CPython does it. First the string is made ASCII: a code
  point below 127 stays, a whitespace above becomes a space, a decimal digit of any script
  becomes the ASCII digit of its value, and at any other code point the string ends with
  a question mark. \<open>digit_zeros\<close> lists the digit zero of every block of ten decimal
  digits beyond ASCII (Unicode 14, the table of CPython 3.11).
\<close>

definition digit_zeros :: "nat list" where
  "digit_zeros =
    [1632, 1776, 1984, 2406, 2534, 2662, 2790, 2918, 3046, 3174, 3302, 3430, 3558, 3664,
     3792, 3872, 4160, 4240, 6112, 6160, 6470, 6608, 6784, 6800, 6992, 7088, 7232, 7248,
     42528, 43216, 43264, 43472, 43504, 43600, 44016, 65296, 66720, 68912, 69734, 69872,
     69942, 70096, 70384, 70736, 70864, 71248, 71360, 71472, 71904, 72016, 72784, 73040,
     73120, 92768, 92864, 93008, 120782, 120792, 120802, 120812, 120822, 123200, 123632,
     125264, 130032]"

definition unicode_decimal :: "nat \<Rightarrow> nat option" where
  "unicode_decimal c =
     (case find (\<lambda>z. z \<le> c \<and> c < z + 10) digit_zeros of
        None \<Rightarrow> None
      | Some z \<Rightarrow> Some (c - z))"

fun to_ascii :: "pystr \<Rightarrow> pystr" where
  "to_ascii [] = []"
| "to_ascii (c # cs) =
     (if c < 127 then c # to_ascii cs
      else if isspace c then 32 # to_ascii cs
      else case unicode_decimal c of
        None \<Rightarrow> [63]
      | Some d \<Rightarrow> (48 + d) # to_ascii cs)"

text \<open>
  Then the ASCII string is read: whitespace of the C locale around it is skipped (the
  separators U+001C to U+001F are not among it), then comes an optional sign, then
  decimal digits, where a single underscore may stand between two digits. More than 4300
  digits are refused (the default of \<open>sys.set_int_max_str_digits\<close>). Every failure is
  a \<open>ValueError\<close>: the result \<open>None\<close>.
\<close>

definition c_isspace :: "nat \<Rightarrow> bool" where
  "c_isspace c = (c = 32 \<or> (9 \<le> c \<and> c \<le> 13))"

definition is_digit :: "nat \<Rightarrow> bool" where
  "is_digit c = (48 \<le> c \<and> c \<le> 57)"

fun digits :: "nat \<Rightarrow> pystr \<Rightarrow> nat option" where
  "digits acc [] = Some acc"
| "digits acc (c # cs) =
     (if is_digit c then digits (10 * acc + (c - 48)) cs
      else if c = 95 then
        (case cs of [] \<Rightarrow> None | d # ds \<Rightarrow> if is_digit d then digits acc cs else None)
      else None)"

definition unsigned :: "pystr \<Rightarrow> nat option" where
  "unsigned s =
     (case s of
        [] \<Rightarrow> None
      | c # cs \<Rightarrow>
          if is_digit c \<and> length (filter is_digit s) \<le> 4300 then digits 0 s else None)"

definition py_int :: "pystr \<Rightarrow> int option" where
  "py_int s =
     (case rev (dropWhile c_isspace (rev (dropWhile c_isspace (to_ascii s)))) of
        [] \<Rightarrow> None
      | c # cs \<Rightarrow>
          if c = 45 then map_option (\<lambda>n. - int n) (unsigned cs)
          else if c = 43 then map_option int (unsigned cs)
          else map_option int (unsigned (c # cs)))"

text \<open>
  \<open>int(request.args.get(k, d))\<close>: the first value of the parameter, or the default,
  which is an int already.
\<close>

definition int_arg :: "(pystr \<times> pystr) list \<Rightarrow> pystr \<Rightarrow> int \<Rightarrow> int option" where
  "int_arg args k d = (case map_of args k of None \<Rightarrow> Some d | Some v \<Rightarrow> py_int v)"

definition bad_params :: "nat \<times> json" where
  "bad_params = (400, JObj [(str_of ''error'', JStr (str_of ''limit/offset must be integers''))])"

text \<open>A row as the handler serialises it; the time is given by its number of seconds.\<close>

definition row_json :: "row \<Rightarrow> json" where
  "row_json r =
     JObj [(str_of ''id'', JNum (int (row_id r))),
           (str_of ''prompt'', JStr (prompt r)),
           (str_of ''response'', JStr (response r)),
           (str_of ''created_at'', JNum (int (created_at r)))]"

definition history :: "(pystr \<times> pystr) list \<Rightarrow> req_state \<Rightarrow> (exn + nat \<times> json) \<times> req_state" where
  "history args s0 =
     (case int_arg args (str_of ''limit'') 5 of
        None \<Rightarrow> (Inr bad_params, s0)
      | Some limit \<Rightarrow>
     (case int_arg args (str_of ''offset'') 0 of
        None \<Rightarrow> (Inr bad_params, s0)
      | Some offset \<Rightarrow>
     (let s1 = log Select (get_db s0) in
      case execute_select limit offset s1 of
        Inl e \<Rightarrow> (Inl e, s1)
      | Inr rs \<Rightarrow> (Inr (200, JArr (map row_json rs)), s1))))"

subsection \<open>A request from its start to the teardown\<close>

text \<open>
  Flask runs the handler in a new context, turns what it returns or raises into the
  response, and then runs \<open>close_db\<close>, the teardown, whatever the handler did.
\<close>

definition serve :: "(req_state \<Rightarrow> (exn + nat \<times> json) \<times> req_state) \<Rightarrow> dbfile \<Rightarrow> response \<times> req_state" where
  "serve handler f = (case handler (fresh f) of (r, s) \<Rightarrow> (respond r, close_db s))"

definition serve_generate ::
  "(pystr \<Rightarrow> pystr option) \<Rightarrow> nat \<Rightarrow> json option \<Rightarrow> dbfile \<Rightarrow> response \<times> req_state" where
  "serve_generate model now body f = serve (generate model now body) f"

definition serve_history :: "(pystr \<times> pystr) list \<Rightarrow> dbfile \<Rightarrow> response \<times> req_state" where
  "serve_history args f = serve (history args) f"

subsection \<open>Runs of the service\<close>

text \<open>
  What the process does to the database file over time: \<open>init_db\<close> at startup or
  later, and served requests. A failing \<open>init_db\<close> ends the run.
\<close>

datatype request =
    EnsureSchema
  | Generate "pystr \<Rightarrow> pystr option" nat "json option"
  | History "(pystr \<times> pystr) list"

fun is_ensure :: "request \<Rightarrow> bool" where
  "is_ensure EnsureSchema = True"
| "is_ensure _ = False"

fun perform :: "request \<Rightarrow> dbfile \<Rightarrow> exn + dbfile" where
  "perform EnsureSchema f = init_db f"
| "perform (Generate model now body) f = Inr (db (snd (serve_generate model now body f)))"
| "perform (History args) f = Inr (db (snd (serve_history args f)))"

fun run :: "request list \<Rightarrow> dbfile \<Rightarrow> exn + dbfile" where
  "run [] f = Inr f"
| "run (r # rs) f = (case perform r f of Inl e \<Rightarrow> Inl e | Inr f' \<Rightarrow> run rs f')"

subsection \<open>Predicates of the properties\<close>

text \<open>The file can take an insert: it is writable and has the table.\<close>

definition ready :: "dbfile \<Rightarrow> bool" where
  "ready f = (writable f \<and> conversations f \<noteq> None)"

text \<open>The ids grow along the insertion order and stay within the sequence.\<close>

definition ids_increasing :: "dbfile \<Rightarrow> bool" where
  "ids_increasing f =
     (case conversations f of
        None \<Rightarrow> True
      | Some t \<Rightarrow> sorted_wrt (<) (map row_id (rows t))
                 \<and> list_all (\<lambda>r. row_id r \<le> last_id t) (rows t))"

text \<open>\<open>appears_before a b xs\<close>: some occurrence of a in xs has an occurrence of b after it.\<close>

fun appears_before :: "'a \<Rightarrow> 'a \<Rightarrow> 'a list \<Rightarrow> bool" where
  "appears_before a b [] = False"
| "appears_before a b (x # xs) = ((x = a \<and> b \<in> set xs) \<or> appears_before a b xs)"

fun is_str :: "json \<Rightarrow> bool" where
  "is_str (JStr s) = True"
| "is_str _ = False"

fun is_obj :: "json \<Rightarrow> bool" where
  "is_obj (JObj kvs) = True"
| "is_obj _ = False"

text \<open>The prompts the model was called with, in order.\<close>

fun model_calls :: "event list \<Rightarrow> pystr list" where
  "model_calls [] = []"
| "model_calls (Oracle p # es) = p # model_calls es"
| "model_calls (e # es) = model_calls es"

fun is_access :: "event \<Rightarrow> bool" where
  "is_access Insert = True"
| "is_access Select = True"
| "is_access Commit = True"
| "is_access _ = False"

fun is_store_event :: "event \<Rightarrow> bool" where
  "is_store_event (Oracle p) = False"
| "is_store_event _ = True"

text \<open>
  The connection discipline on the effects of one request: with no statement there is no
  store event at all; otherwise the store events are one \<open>Connect\<close>, then statements
  only, then one \<open>Close\<close>.
\<close>

definition scoped :: "event list \<Rightarrow> bool" where
  "scoped tr =
     (let es = filter is_store_event tr in
      if list_ex is_access es
      then 3 \<le> length es \<and> hd es = Connect \<and> last es = Close
           \<and> list_all is_access (butlast (tl es))
      else es = [])"

subsection \<open>Concrete requests and files\<close>

definition echo_model :: "pystr \<Rightarrow> pystr option" where
  "echo_model p = Some (32 # p @ [10])"

definition failing_model :: "pystr \<Rightarrow> pystr option" where
  "failing_model p = None"

text \<open>A model whose text is not the prompt: the prompt backwards after \<open>re:\<close>.\<close>

definition answer_model :: "pystr \<Rightarrow> pystr option" where
  "answer_model p = Some (str_of '' re:'' @ rev p @ [10])"

definition empty_file :: dbfile where
  "empty_file = \<lparr>conversations = Some \<lparr>rows = [], last_id = 0\<rparr>, writable = True\<rparr>"

definition no_table :: dbfile where
  "no_table = \<lparr>conversations = None, writable = True\<rparr>"

definition hi_body :: "json option" where
  "hi_body = Some (JObj [(str_of ''prompt'', JStr (str_of '' hi ''))])"

definition row_a :: row where
  "row_a = \<lparr>row_id = 1, prompt = str_of ''a'', response = str_of ''x'', created_at = 7\<rparr>"

definition row_b :: row where
  "row_b = \<lparr>row_id = 2, prompt = str_of ''b'', response = str_of ''y'', created_at = 7\<rparr>"

definition two_rows :: dbfile where
  "two_rows = \<lparr>conversations = Some \<lparr>rows = [row_a, row_b], last_id = 2\<rparr>, writable = True\<rparr>"

text \<open>A file with more rows than the default limit of \<open>/history\<close>.\<close>

definition nth_row :: "nat \<Rightarrow> row" where
  "nth_row i = \<lparr>row_id = i, prompt = [112], response = [114], created_at = 100 + i\<rparr>"

definition six_rows :: dbfile where
  "six_rows =
     \<lparr>conversations = Some \<lparr>rows = map nth_row [1, 2, 3, 4, 5, 6], last_id = 6\<rparr>,
      writable = True\<rparr>"

text \<open>Two inserts, the second at an earlier clock value than the first.\<close>

definition clock_set_back :: dbfile where
  "clock_set_back =
     db (snd (serve_generate echo_model 5 hi_body
       (db (snd (serve_generate echo_model 10 hi_body empty_file)))))"

section \<open>Properties\<close>

subsection \<open>Unfolding the handlers\<close>

lemmas gen_defs = serve_generate_def serve_def generate_def fresh_def get_json_def log_def
  get_db_def close_db_def execute_insert_def commit_def complete_def records_def

lemmas bind_defs = bind_text_def encodable_def utf8_size_def

lemmas hist_defs = serve_history_def serve_def history_def fresh_def log_def
  get_db_def close_db_def execute_select_def records_def bad_params_def

lemmas string_defs = str_of_def strip_def isspace_def

lemmas int_defs = int_arg_def py_int_def unsigned_def is_digit_def c_isspace_def
  unicode_decimal_def digit_zeros_def fits_int64_def

lemmas data_defs = echo_model_def failing_model_def empty_file_def no_table_def hi_body_def
  row_a_def row_b_def two_rows_def

text \<open>The empty text can always be bound.\<close>

lemma bind_text_empty [simp]: "bind_text [] = None"
  by (simp add: bind_defs)

lemma strip_empty [simp]: "strip [] = []"
  by (simp add: strip_def)

text \<open>An exception never gives the status 200.\<close>

lemma exn_status_not_ok [simp]: "exn_status e \<noteq> 200"
  by (cases e) simp_all

text \<open>What \<open>/generate\<close> can do to the file: one more row with the next id, or nothing.\<close>

lemma generate_db_cases:
  "(\<exists>t p reply. conversations f = Some t \<and>
      db (snd (serve_generate model now body f)) =
        f\<lparr>conversations := Some \<lparr>rows = rows t @
              [\<lparr>row_id = last_id t + 1, prompt = p, response = reply, created_at = now\<rparr>],
            last_id = last_id t + 1\<rparr>\<rparr>)
   \<or> db (snd (serve_generate model now body f)) = f"
  by (auto simp: gen_defs Let_def split: sum.splits option.splits if_splits intro!: exI)

lemma history_db: "db (snd (serve_history args f)) = f"
  by (auto simp: hist_defs Let_def split: sum.splits option.splits if_splits)

lemma history_ok:
  assumes "serve_history args f = (Json 200 body, s')"
  shows "\<exists>l off. int_arg args (str_of ''limit'') 5 = Some l
           \<and> int_arg args (str_of ''offset'') 0 = Some off
           \<and> body = JArr (map row_json (list_recent l off (records f)))"
  using assms
  by (auto simp: hist_defs Let_def split: sum.splits option.splits if_splits)

text \<open>The effects of a request, in full.\<close>

lemma generate_trace:
  "\<exists>p. trace (snd (serve_generate model now body f)) \<in>
     {[], [Oracle p], [Oracle p, Connect, Insert, Close],
      [Oracle p, Connect, Insert, Commit, Close]}"
  by (auto simp: gen_defs Let_def split: sum.splits option.splits if_splits)

lemma history_trace:
  "trace (snd (serve_history args f)) \<in> {[], [Connect, Select, Close]}"
  by (auto simp: hist_defs Let_def split: sum.splits option.splits if_splits)

lemma close_db_g: "g_db (close_db s) = None"
  by (simp add: close_db_def log_def split: option.splits)

lemma serve_g: "g_db (snd (serve h f)) = None"
  by (simp add: serve_def close_db_g split: prod.splits)

lemma get_db_twice: "get_db (get_db s) = get_db s"
  by (simp add: get_db_def log_def split: option.splits)

subsection \<open>The order of the rows\<close>

lemma not_after_total: "not_after a b \<or> not_after b a"
  by (auto simp: not_after_def)

lemma not_after_trans: "not_after a b \<Longrightarrow> not_after b c \<Longrightarrow> not_after a c"
  by (auto simp: not_after_def)

lemma set_place: "set (place r xs) = insert r (set xs)"
  by (induction xs) auto

lemma mset_place: "mset (place r xs) = add_mset r (mset xs)"
  by (induction xs) auto

lemma mset_order_by: "mset (order_by rs) = mset rs"
  by (induction rs) (auto simp: mset_place)

lemma sorted_place: "sorted_wrt not_after xs \<Longrightarrow> sorted_wrt not_after (place r xs)"
proof (induction xs)
  case Nil
  then show ?case by simp
next
  case (Cons x xs)
  show ?case
  proof (cases "not_after r x")
    case True
    with Cons.prems show ?thesis by (auto intro: not_after_trans)
  next
    case False
    then have "not_after x r" using not_after_total by blast
    with False Cons show ?thesis by (auto simp: set_place)
  qed
qed

lemma sorted_order_by: "sorted_wrt not_after (order_by rs)"
  by (induction rs) (auto simp: sorted_place)

lemma sorted_limit_offset: "sorted_wrt R xs \<Longrightarrow> sorted_wrt R (limit_offset l off xs)"
  by (simp add: limit_offset_def Let_def sorted_wrt_take sorted_wrt_drop)

lemma sorted_list_recent: "sorted_wrt not_after (list_recent l off rs)"
  by (simp add: list_recent_def sorted_limit_offset sorted_order_by)

lemma appears_before_sorted: "sorted_wrt R xs \<Longrightarrow> appears_before a b xs \<Longrightarrow> R a b"
  by (induction xs) auto

subsection \<open>Invariants of a run\<close>

lemma init_db_ready: "ready f \<Longrightarrow> init_db f = Inr f"
  by (auto simp: ready_def init_db_def)

lemma init_db_makes_ready:
  "writable f \<Longrightarrow> \<exists>f'. init_db f = Inr f' \<and> ready f' \<and> records f' = records f"
  by (auto simp: ready_def init_db_def records_def split: option.splits)

lemma generate_ready: "ready f \<Longrightarrow> ready (db (snd (serve_generate model now body f)))"
  using generate_db_cases [of f model now body] by (auto simp: ready_def)

lemma run_skip_ensure:
  "ready f \<Longrightarrow>
     \<exists>f'. run rs f = Inr f' \<and> ready f' \<and> run (filter (\<lambda>r. \<not> is_ensure r) rs) f = Inr f'"
proof (induction rs arbitrary: f)
  case Nil
  then show ?case by simp
next
  case (Cons r rs)
  show ?case
  proof (cases r)
    case EnsureSchema
    with Cons show ?thesis by (simp add: init_db_ready)
  next
    case (Generate model now body)
    with Cons.IH [OF generate_ready [OF Cons.prems]] show ?thesis by simp
  next
    case (History args)
    with Cons show ?thesis by (simp add: history_db)
  qed
qed

lemma generate_ids:
  assumes "ids_increasing f"
  shows "ids_increasing (db (snd (serve_generate model now body f)))"
proof -
  consider "db (snd (serve_generate model now body f)) = f"
    | t r where "conversations f = Some t" "row_id r = last_id t + 1"
        "db (snd (serve_generate model now body f)) =
           f\<lparr>conversations := Some \<lparr>rows = rows t @ [r], last_id = last_id t + 1\<rparr>\<rparr>"
    using generate_db_cases [of f model now body] by force
  then show ?thesis
  proof cases
    case 1
    with assms show ?thesis by simp
  next
    case 2
    from assms 2(1) have "sorted_wrt (<) (map row_id (rows t))"
      and le: "\<forall>x \<in> set (rows t). row_id x \<le> last_id t"
      by (simp_all add: ids_increasing_def list_all_iff)
    moreover from le 2(2) have "\<forall>x \<in> set (rows t). row_id x < row_id r"
      by (simp add: le_imp_less_Suc)
    moreover from le have "\<forall>x \<in> set (rows t). row_id x \<le> last_id t + 1"
      by (simp add: le_SucI)
    ultimately show ?thesis
      using 2(2,3) by (simp add: ids_increasing_def sorted_wrt_append list_all_iff)
  qed
qed

lemma init_db_ids: "ids_increasing f \<Longrightarrow> init_db f = Inr f' \<Longrightarrow> ids_increasing f'"
  by (auto simp: ids_increasing_def init_db_def split: option.splits if_splits)

lemma perform_ids: "ids_increasing f \<Longrightarrow> perform r f = Inr f' \<Longrightarrow> ids_increasing f'"
  by (cases r) (auto simp: init_db_ids generate_ids history_db)

text \<open>Every file the service reaches from a file without the table has increasing ids.\<close>

lemma run_ids: "ids_increasing f \<Longrightarrow> run rs f = Inr f' \<Longrightarrow> ids_increasing f'"
  by (induction rs arbitrary: f) (auto split: sum.splits dest: perform_ids)

lemma no_table_ids: "ids_increasing no_table"
  by (simp add: ids_increasing_def no_table_def)

lemma reachable_ids: "run rs no_table = Inr f \<Longrightarrow> ids_increasing f"
  using run_ids [OF no_table_ids] .

subsection \<open>Reading an integer\<close>

text \<open>
  \<open>py_int\<close> at the borders of \<open>int()\<close>: an information separator is no whitespace for
  it though \<open>strip\<close> removes it, whitespace beyond ASCII is, digits of other scripts
  count, and underscores stand between digits only.
\<close>

lemma py_int_separators: "py_int [28, 51] = None \<and> py_int [51, 31] = None"
  by (simp add: int_defs isspace_def)

lemma py_int_other_scripts:
  "py_int [1635] = Some 3 \<and> py_int [45, 1633, 50] = Some (- 12) \<and> py_int [65297, 48] = Some 10"
  by (simp add: int_defs isspace_def)

lemma py_int_whitespace: "py_int [160, 32, 43, 52, 50, 8195, 10] = Some 42"
  by (simp add: int_defs isspace_def)

lemma py_int_underscores:
  "py_int (str_of ''1_000'') = Some 1000 \<and> py_int (str_of ''1__0'') = None
   \<and> py_int (str_of ''_1'') = None \<and> py_int (str_of ''1_'') = None
   \<and> py_int (str_of ''- 1'') = None \<and> py_int (str_of '''') = None"
  by (simp add: int_defs isspace_def str_of_def)

lemma unsigned_digit_limit: "4300 < length (filter is_digit s) \<Longrightarrow> unsigned s = None"
  by (cases s) (auto simp: unsigned_def)

lemma to_ascii_nines: "to_ascii (replicate n 57) = replicate n 57"
  by (induction n) simp_all

text \<open>A string of 4301 digits does not parse.\<close>

lemma py_int_digit_limit: "py_int (replicate 4301 57) = None"
proof -
  have nine: "\<not> c_isspace 57" "is_digit 57"
    by (simp_all add: c_isspace_def is_digit_def)
  have drop: "dropWhile c_isspace (replicate n 57) = replicate n 57" for n
    using nine(1) by (cases n) simp_all
  have "unsigned (replicate 4301 57) = None"
    using nine(2) by (intro unsigned_digit_limit) simp
  moreover have "replicate 4301 57 = (57::nat) # replicate 4300 57"
    by (simp add: replicate_Suc [symmetric] del: replicate_Suc)
  ultimately show ?thesis
    by (simp add: py_int_def to_ascii_nines drop)
qed

subsection \<open>POST /generate\<close>

text \<open>
  C1. For every prompt P that is a string, a successful \<open>POST /generate\<close> (status 200)
  appends exactly one record to the conversation store: its prompt is \<open>strip P\<close>, its
  response is the text the model returned for \<open>strip P\<close> (with the whitespace around it
  removed, as line 110 does), its id is the next of the sequence and its time is the
  clock's; and the call returns that same response text.
\<close>

theorem generate_appends_one_record:
  assumes "map_of kvs (str_of ''prompt'') = Some (JStr P)"
      and "serve_generate model now (Some (JObj kvs)) f = (resp, s')"
      and "status resp = 200"
  shows "\<exists>text t. model (strip P) = Some text
           \<and> conversations f = Some t
           \<and> records (db s') = records f @
               [\<lparr>row_id = last_id t + 1, prompt = strip P, response = strip text,
                 created_at = now\<rparr>]
           \<and> resp = Json 200 (JObj [(str_of ''reply'', JStr (strip text))])"
  using assms
  by (auto simp: gen_defs Let_def split: sum.splits option.splits if_splits)

theorem generate_appends_one_record_witness:
  "answer_model (str_of ''hi'') = Some (str_of '' re:ih'' @ [10])
   \<and> fst (serve_generate answer_model 10 hi_body two_rows) =
       Json 200 (JObj [(str_of ''reply'', JStr (str_of ''re:ih''))])
   \<and> records (db (snd (serve_generate answer_model 10 hi_body two_rows))) =
       [row_a, row_b,
        \<lparr>row_id = 3, prompt = str_of ''hi'', response = str_of ''re:ih'', created_at = 10\<rparr>]"
proof -
  let ?kvs = "[(str_of ''prompt'', JStr (str_of '' hi ''))]"
  let ?r = "serve_generate answer_model 10 (Some (JObj ?kvs)) two_rows"
  have a: "map_of ?kvs (str_of ''prompt'') = Some (JStr (str_of '' hi ''))"
    by simp
  have b: "?r = (fst ?r, snd ?r)"
    by simp
  have c: "status (fst ?r) = 200"
    by (simp add: gen_defs bind_defs data_defs answer_model_def string_defs Let_def)
  have d: "strip (str_of '' hi '') = str_of ''hi''"
    "strip (str_of '' re:ih'' @ [10]) = str_of ''re:ih''"
    by (simp_all add: string_defs)
  have e: "answer_model (str_of ''hi'') = Some (str_of '' re:ih'' @ [10])"
    by (simp add: answer_model_def str_of_def)
  from generate_appends_one_record [OF a b c] d e show ?thesis
    by (auto simp: hi_body_def records_def two_rows_def)
qed

text \<open>
  A prompt with a lone surrogate cannot be bound to the insert: the request ends with an
  error after the model has answered, and no row is written.
\<close>

lemma generate_surrogate_prompt:
  "serve_generate echo_model 10 (Some (JObj [(str_of ''prompt'', JStr [55296])])) two_rows =
     (ErrorPage 500 UnicodeEncodeError,
      \<lparr>g_db = None, db = two_rows, trace = [Oracle [55296], Connect, Insert, Close]\<rparr>)"
  by (simp add: gen_defs bind_defs data_defs string_defs Let_def)

text \<open>
  C2. When the model raises, \<open>POST /generate\<close> answers with an error (status 500) and
  leaves the store as it was; and on every path that does not end with status 200 the
  store is unchanged, so no record is inserted.
\<close>

theorem generate_failure_inserts_nothing:
  assumes "serve_generate model now body f = (resp, s')"
  shows "(status resp \<noteq> 200 \<longrightarrow> db s' = f) \<and>
         (\<forall>data v p. body = Some data
             \<and> dict_get data (str_of ''prompt'') (JStr []) = Inr v
             \<and> str_strip v = Inr p \<and> model p = None
           \<longrightarrow> resp = ErrorPage 500 OracleError \<and> db s' = f)"
  using assms
  by (auto simp: gen_defs Let_def split: sum.splits option.splits if_splits)

theorem generate_failure_inserts_nothing_witness:
  "fst (serve_generate failing_model 10 hi_body two_rows) = ErrorPage 500 OracleError
   \<and> db (snd (serve_generate failing_model 10 hi_body two_rows)) = two_rows
   \<and> fst (serve_generate echo_model 10 None two_rows) = ErrorPage 400 BadRequest
   \<and> db (snd (serve_generate echo_model 10 None two_rows)) = two_rows"
proof -
  let ?r = "serve_generate failing_model 10 hi_body two_rows"
  let ?q = "serve_generate echo_model 10 None two_rows"
  have r: "fst ?r = ErrorPage 500 OracleError"
    by (simp add: gen_defs bind_defs data_defs string_defs Let_def)
  have q: "fst ?q = ErrorPage 400 BadRequest"
    by (simp add: gen_defs Let_def)
  have "?r = (fst ?r, snd ?r)" and "?q = (fst ?q, snd ?q)"
    by simp_all
  from this [THEN generate_failure_inserts_nothing] r q show ?thesis
    by simp
qed

text \<open>
  C6, as the code has it. A body that is a JSON object without a \<open>prompt\<close> field is
  served exactly as the same object with the prompt \<open>''\<close>, and that is no error: when
  the model answers, its text can be stored and the file takes the insert, the status is
  200. When the prompt is a string P, the model is called once, with \<open>strip P\<close>, and
  every record the request adds has the prompt \<open>strip P\<close>.
\<close>

theorem generate_missing_prompt_and_trim:
  "(map_of kvs (str_of ''prompt'') = None \<longrightarrow>
      serve_generate model now (Some (JObj kvs)) f =
        serve_generate model now (Some (JObj ((str_of ''prompt'', JStr []) # kvs))) f
      \<and> (ready f \<and> model [] = Some text \<and> storable (strip text) \<longrightarrow>
           fst (serve_generate model now (Some (JObj kvs)) f) =
             Json 200 (JObj [(str_of ''reply'', JStr (strip text))])))
   \<and> (map_of kvs (str_of ''prompt'') = Some (JStr P) \<longrightarrow>
        model_calls (trace (snd (serve_generate model now (Some (JObj kvs)) f))) = [strip P]
        \<and> list_all (\<lambda>r. prompt r = strip P)
            (drop (length (records f))
               (records (db (snd (serve_generate model now (Some (JObj kvs)) f))))))"
  by (auto simp: gen_defs ready_def storable_def Let_def
      split: sum.splits option.splits if_splits)

theorem generate_missing_prompt_and_trim_witness:
  "serve_generate answer_model 10 (Some (JObj [])) empty_file =
     (Json 200 (JObj [(str_of ''reply'', JStr (str_of ''re:''))]),
      \<lparr>g_db = None,
        db = \<lparr>conversations = Some \<lparr>rows = [\<lparr>row_id = 1, prompt = [],
               response = str_of ''re:'', created_at = 10\<rparr>], last_id = 1\<rparr>, writable = True\<rparr>,
        trace = [Oracle [], Connect, Insert, Commit, Close]\<rparr>)
   \<and> model_calls (trace (snd (serve_generate answer_model 10 hi_body empty_file))) =
       [str_of ''hi'']"
proof -
  have a: "map_of ([] :: (pystr \<times> json) list) (str_of ''prompt'') = None"
    by simp
  have b: "map_of [(str_of ''prompt'', JStr (str_of '' hi ''))] (str_of ''prompt'') =
      Some (JStr (str_of '' hi ''))"
    by simp
  have c: "strip (str_of '' hi '') = str_of ''hi''"
    by (simp add: string_defs)
  have d: "serve_generate answer_model 10 (Some (JObj [(str_of ''prompt'', JStr [])])) empty_file =
     (Json 200 (JObj [(str_of ''reply'', JStr (str_of ''re:''))]),
      \<lparr>g_db = None,
        db = \<lparr>conversations = Some \<lparr>rows = [\<lparr>row_id = 1, prompt = [],
               response = str_of ''re:'', created_at = 10\<rparr>], last_id = 1\<rparr>, writable = True\<rparr>,
        trace = [Oracle [], Connect, Insert, Commit, Close]\<rparr>)"
    by (simp add: gen_defs bind_defs data_defs answer_model_def string_defs Let_def)
  from generate_missing_prompt_and_trim [of "[]" answer_model 10 empty_file] a d
  have "serve_generate answer_model 10 (Some (JObj [])) empty_file =
     (Json 200 (JObj [(str_of ''reply'', JStr (str_of ''re:''))]),
      \<lparr>g_db = None,
        db = \<lparr>conversations = Some \<lparr>rows = [\<lparr>row_id = 1, prompt = [],
               response = str_of ''re:'', created_at = 10\<rparr>], last_id = 1\<rparr>, writable = True\<rparr>,
        trace = [Oracle [], Connect, Insert, Commit, Close]\<rparr>)"
    by simp
  moreover
  from generate_missing_prompt_and_trim
    [of "[(str_of ''prompt'', JStr (str_of '' hi ''))]" answer_model 10 empty_file _ "str_of '' hi ''"]
    b c
  have "model_calls (trace (snd (serve_generate answer_model 10 hi_body empty_file))) =
      [str_of ''hi'']"
    by (simp add: hi_body_def)
  ultimately show ?thesis by simp
qed

text \<open>
  C6 as stated fails: the JSON bodies \<open>null\<close> and \<open>[1]\<close> have no \<open>prompt\<close> field, and
  the answer is an error, from \<open>get\<close> on a value that has none.
\<close>

theorem generate_non_object_body_counterexample:
  "serve_generate answer_model 10 (Some JNull) two_rows =
     (ErrorPage 500 AttributeError, \<lparr>g_db = None, db = two_rows, trace = []\<rparr>)
   \<and> serve_generate answer_model 10 (Some (JArr [JNum 1])) two_rows =
     (ErrorPage 500 AttributeError, \<lparr>g_db = None, db = two_rows, trace = []\<rparr>)"
  by (simp add: gen_defs)

text \<open>
  C10. When the \<open>prompt\<close> field of the JSON object is not a string, \<open>POST /generate\<close>
  answers with an error (status 500, from \<open>strip\<close> on a value that has none), and has
  no effect at all: the model is not called and the store is not touched.
\<close>

theorem generate_non_string_prompt:
  assumes "map_of kvs (str_of ''prompt'') = Some v"
      and "\<not> is_str v"
  shows "serve_generate model now (Some (JObj kvs)) f =
           (ErrorPage 500 AttributeError, \<lparr>g_db = None, db = f, trace = []\<rparr>)"
  using assms
  by (cases v) (simp_all add: gen_defs)

theorem generate_non_string_prompt_witness:
  "serve_generate echo_model 10 (Some (JObj [(str_of ''prompt'', JNum 3)])) two_rows =
     (ErrorPage 500 AttributeError, \<lparr>g_db = None, db = two_rows, trace = []\<rparr>)
   \<and> serve_generate echo_model 10 (Some (JObj [(str_of ''prompt'', JNull)])) two_rows =
     (ErrorPage 500 AttributeError, \<lparr>g_db = None, db = two_rows, trace = []\<rparr>)
   \<and> model_calls [] = []"
proof -
  have "map_of [(str_of ''prompt'', JNum 3)] (str_of ''prompt'') = Some (JNum 3)"
    and "map_of [(str_of ''prompt'', JNull)] (str_of ''prompt'') = Some JNull"
    by simp_all
  then show ?thesis
    using generate_non_string_prompt [of _ "JNum 3" echo_model 10 two_rows]
      generate_non_string_prompt [of _ JNull echo_model 10 two_rows]
    by simp
qed

subsection \<open>GET /history\<close>

text \<open>
  C5. When \<open>limit\<close> or \<open>offset\<close> does not parse as an integer, \<open>GET /history\<close>
  answers 400 with the message \<open>limit/offset must be integers\<close>, and the request ends
  in the state it started in: no connection, no statement, the file unchanged.
\<close>

theorem history_parse_failure:
  assumes "int_arg args (str_of ''limit'') 5 = None
           \<or> int_arg args (str_of ''offset'') 0 = None"
  shows "serve_history args f =
           (Json 400 (JObj [(str_of ''error'', JStr (str_of ''limit/offset must be integers''))]),
            \<lparr>g_db = None, db = f, trace = []\<rparr>)"
  using assms
  by (auto simp: hist_defs Let_def split: option.splits)

theorem history_parse_failure_witness:
  "int_arg [(str_of ''limit'', str_of ''abc'')] (str_of ''limit'') 5 = None
   \<and> serve_history [(str_of ''limit'', str_of ''abc'')] six_rows =
       (Json 400 (JObj [(str_of ''error'', JStr (str_of ''limit/offset must be integers''))]),
        \<lparr>g_db = None, db = six_rows, trace = []\<rparr>)
   \<and> int_arg [(str_of ''offset'', [28, 51])] (str_of ''offset'') 0 = None
   \<and> serve_history [(str_of ''offset'', [28, 51])] six_rows =
       (Json 400 (JObj [(str_of ''error'', JStr (str_of ''limit/offset must be integers''))]),
        \<lparr>g_db = None, db = six_rows, trace = []\<rparr>)"
proof -
  have a: "int_arg [(str_of ''limit'', str_of ''abc'')] (str_of ''limit'') 5 = None"
    by (simp add: int_defs string_defs)
  have b: "int_arg [(str_of ''offset'', [28, 51])] (str_of ''offset'') 0 = None"
    by (simp add: int_defs string_defs)
  from a have "int_arg [(str_of ''limit'', str_of ''abc'')] (str_of ''limit'') 5 = None
      \<or> int_arg [(str_of ''limit'', str_of ''abc'')] (str_of ''offset'') 0 = None"
    by (rule disjI1)
  note history_parse_failure [OF this, of six_rows]
  moreover
  from b have "int_arg [(str_of ''offset'', [28, 51])] (str_of ''limit'') 5 = None
      \<or> int_arg [(str_of ''offset'', [28, 51])] (str_of ''offset'') 0 = None"
    by (rule disjI2)
  note history_parse_failure [OF this, of six_rows]
  ultimately show ?thesis
    using a b by simp
qed

text \<open>
  C4, as the code has it. The handler checks only that \<open>limit\<close> and \<open>offset\<close> parse
  as integers: a value that does not parse is answered with 400, and neither a
  connection nor a statement reaches the store. Every pair of integers, negative ones
  too, goes to the store in the query, and the rows of the answer are those the query
  gives: with a negative limit all rows from the offset on, with a negative offset the
  rows of offset 0.
\<close>

theorem history_rejects_only_non_integers:
  "((int_arg args (str_of ''limit'') 5 = None \<or> int_arg args (str_of ''offset'') 0 = None)
      \<longrightarrow> status (fst (serve_history args f)) = 400
          \<and> Select \<notin> set (trace (snd (serve_history args f)))
          \<and> Connect \<notin> set (trace (snd (serve_history args f))))
   \<and> (int_arg args (str_of ''limit'') 5 = Some l \<and> int_arg args (str_of ''offset'') 0 = Some off
      \<longrightarrow> Select \<in> set (trace (snd (serve_history args f)))
          \<and> (fits_int64 l \<and> fits_int64 off \<and> conversations f \<noteq> None
              \<longrightarrow> fst (serve_history args f) =
                    Json 200 (JArr (map row_json (list_recent l off (records f))))
                  \<and> (l < 0 \<longrightarrow> list_recent l off (records f) =
                        drop (nat off) (order_by (records f)))
                  \<and> (off < 0 \<longrightarrow> list_recent l off (records f) =
                        list_recent l 0 (records f))
                  \<and> (l < 0 \<and> off \<le> 0 \<longrightarrow>
                        length (list_recent l off (records f)) = length (records f))))"
proof -
  have "length (order_by rs) = length rs" for rs
    using mset_order_by [of rs] by (metis size_mset)
  then show ?thesis
    by (auto simp: hist_defs list_recent_def limit_offset_def Let_def split: option.splits)
qed

theorem history_rejects_only_non_integers_witness:
  "Select \<in> set (trace (snd (serve_history
       [(str_of ''limit'', str_of ''-1''), (str_of ''offset'', str_of ''-3'')] six_rows)))
   \<and> fst (serve_history
       [(str_of ''limit'', str_of ''-1''), (str_of ''offset'', str_of ''-3'')] six_rows) =
       Json 200 (JArr (map row_json (map nth_row [6, 5, 4, 3, 2, 1])))
   \<and> status (fst (serve_history [(str_of ''offset'', str_of ''1.5'')] six_rows)) = 400
   \<and> Select \<notin> set (trace (snd (serve_history [(str_of ''offset'', str_of ''1.5'')] six_rows)))"
proof -
  let ?neg = "[(str_of ''limit'', str_of ''-1''), (str_of ''offset'', str_of ''-3'')]"
  let ?bad = "[(str_of ''offset'', str_of ''1.5'')]"
  have a: "int_arg ?neg (str_of ''limit'') 5 = Some (- 1)"
    and b: "int_arg ?neg (str_of ''offset'') 0 = Some (- 3)"
    and c: "int_arg ?bad (str_of ''offset'') 0 = None"
    by (simp_all add: int_defs string_defs)
  have d: "fits_int64 (- 1)" "fits_int64 (- 3)" "conversations six_rows \<noteq> None"
    by (simp_all add: fits_int64_def six_rows_def)
  have e: "order_by (records six_rows) = map nth_row [6, 5, 4, 3, 2, 1]"
    by (simp add: records_def six_rows_def nth_row_def not_after_def)
  from history_rejects_only_non_integers [of ?neg six_rows "- 1" "- 3"]
    history_rejects_only_non_integers [of ?bad six_rows 5 0]
    a b c d e
  show ?thesis by simp
qed

text \<open>
  C4 as stated fails: \<open>limit=-1\<close> parses, the query runs with it, and the answer is
  200 with all six rows of the table, one more than the default limit gives.
\<close>

theorem history_negative_limit_counterexample:
  "int_arg [(str_of ''limit'', str_of ''-1'')] (str_of ''limit'') 5 = Some (- 1)
   \<and> serve_history [(str_of ''limit'', str_of ''-1'')] six_rows =
       (Json 200 (JArr (map row_json (map nth_row [6, 5, 4, 3, 2, 1]))),
        \<lparr>g_db = None, db = six_rows, trace = [Connect, Select, Close]\<rparr>)
   \<and> fst (serve_history [] six_rows) =
       Json 200 (JArr (map row_json (map nth_row [6, 5, 4, 3, 2])))"
  by (simp add: hist_defs int_defs string_defs six_rows_def nth_row_def list_recent_def
      limit_offset_def not_after_def Let_def)

text \<open>
  C3, as the code has it. The records of a successful \<open>GET /history\<close> are in the order
  of \<open>created_at\<close> descending, ties broken by id descending. A record inserted before
  another does not appear before it when its \<open>created_at\<close> is not the later one of the
  two; with a clock that was set back between the inserts, it does.
\<close>

theorem history_order:
  assumes ok: "serve_history args f = (Json 200 body, s')"
      and inc: "ids_increasing f"
  shows "\<exists>l off. int_arg args (str_of ''limit'') 5 = Some l
           \<and> int_arg args (str_of ''offset'') 0 = Some off
           \<and> body = JArr (map row_json (list_recent l off (records f)))
           \<and> sorted_wrt not_after (list_recent l off (records f))
           \<and> (\<forall>i j. i < j \<and> j < length (records f)
                  \<and> created_at (records f ! i) \<le> created_at (records f ! j)
                \<longrightarrow> \<not> appears_before (records f ! i) (records f ! j)
                        (list_recent l off (records f)))"
proof -
  from history_ok [OF ok] obtain l off where
    args: "int_arg args (str_of ''limit'') 5 = Some l"
      "int_arg args (str_of ''offset'') 0 = Some off" and
    body: "body = JArr (map row_json (list_recent l off (records f)))"
    by blast
  let ?out = "list_recent l off (records f)"
  have srt: "sorted_wrt not_after ?out"
    by (rule sorted_list_recent)
  have ids: "sorted_wrt (<) (map row_id (records f))"
    using inc by (auto simp: ids_increasing_def records_def split: option.splits)
  have "\<not> appears_before (records f ! i) (records f ! j) ?out"
    if "i < j" "j < length (records f)"
      "created_at (records f ! i) \<le> created_at (records f ! j)" for i j
  proof
    assume "appears_before (records f ! i) (records f ! j) ?out"
    with srt have na: "not_after (records f ! i) (records f ! j)"
      by (rule appears_before_sorted)
    from ids that have "row_id (records f ! i) < row_id (records f ! j)"
      by (simp add: sorted_wrt_iff_nth_less)
    with na that(3) show False
      by (auto simp: not_after_def)
  qed
  with args body srt show ?thesis by blast
qed

theorem history_order_witness:
  "ids_increasing two_rows
   \<and> serve_history [] two_rows =
       (Json 200 (JArr [row_json row_b, row_json row_a]),
        \<lparr>g_db = None, db = two_rows, trace = [Connect, Select, Close]\<rparr>)
   \<and> sorted_wrt not_after (list_recent 5 0 (records two_rows))
   \<and> \<not> appears_before row_a row_b (list_recent 5 0 (records two_rows))"
proof -
  have inc: "ids_increasing two_rows"
    by (simp add: ids_increasing_def data_defs)
  have ok: "serve_history [] two_rows =
       (Json 200 (JArr [row_json row_b, row_json row_a]),
        \<lparr>g_db = None, db = two_rows, trace = [Connect, Select, Close]\<rparr>)"
    by (simp add: hist_defs int_defs data_defs list_recent_def limit_offset_def
        not_after_def Let_def)
  have args: "int_arg [] (str_of ''limit'') 5 = Some 5" "int_arg [] (str_of ''offset'') 0 = Some 0"
    by (simp_all add: int_arg_def)
  have recs: "records two_rows ! 0 = row_a" "records two_rows ! 1 = row_b"
    "length (records two_rows) = 2" "created_at row_a \<le> created_at row_b"
    by (simp_all add: records_def data_defs)
  from history_order [OF ok inc] args obtain
    srt: "sorted_wrt not_after (list_recent 5 0 (records two_rows))" and
    ord: "\<forall>i j. i < j \<and> j < length (records two_rows)
            \<and> created_at (records two_rows ! i) \<le> created_at (records two_rows ! j)
          \<longrightarrow> \<not> appears_before (records two_rows ! i) (records two_rows ! j)
                  (list_recent 5 0 (records two_rows))"
    by auto
  from ord [rule_format, of 0 1] recs
  have "\<not> appears_before row_a row_b (list_recent 5 0 (records two_rows))"
    by simp
  with inc ok srt show ?thesis by simp
qed

text \<open>
  C3 as stated fails: of two records inserted at the clock values 10 and then 5, the one
  inserted first is the first of the output.
\<close>

theorem history_insertion_order_counterexample:
  "records clock_set_back =
     [\<lparr>row_id = 1, prompt = str_of ''hi'', response = str_of ''hi'', created_at = 10\<rparr>,
      \<lparr>row_id = 2, prompt = str_of ''hi'', response = str_of ''hi'', created_at = 5\<rparr>]
   \<and> fst (serve_history [] clock_set_back) =
       Json 200 (JArr
         [row_json \<lparr>row_id = 1, prompt = str_of ''hi'', response = str_of ''hi'', created_at = 10\<rparr>,
          row_json \<lparr>row_id = 2, prompt = str_of ''hi'', response = str_of ''hi'', created_at = 5\<rparr>])"
proof -
  have f: "clock_set_back =
     \<lparr>conversations = Some \<lparr>rows =
        [\<lparr>row_id = 1, prompt = str_of ''hi'', response = str_of ''hi'', created_at = 10\<rparr>,
         \<lparr>row_id = 2, prompt = str_of ''hi'', response = str_of ''hi'', created_at = 5\<rparr>],
        last_id = 2\<rparr>, writable = True\<rparr>"
    by (simp add: clock_set_back_def gen_defs bind_defs data_defs string_defs Let_def)
  show ?thesis
    unfolding f
    by (simp add: hist_defs int_defs list_recent_def limit_offset_def not_after_def Let_def)
qed

subsection \<open>The store across requests\<close>

text \<open>
  C9. \<open>GET /history\<close> leaves the database file as it was. After \<open>POST /generate\<close>
  the records are those of before, in the same order and unchanged, followed by what the
  request appended.
\<close>

theorem store_append_only:
  "db (snd (serve_history args f)) = f
   \<and> (\<exists>extra. records (db (snd (serve_generate model now body f))) = records f @ extra)"
proof
  show "db (snd (serve_history args f)) = f"
    by (rule history_db)
next
  from generate_db_cases [of f model now body]
  show "\<exists>extra. records (db (snd (serve_generate model now body f))) = records f @ extra"
    by (auto simp: records_def)
qed

theorem store_append_only_witness:
  "db (snd (serve_history [] two_rows)) = two_rows
   \<and> records (db (snd (serve_generate echo_model 10 hi_body two_rows))) =
       records two_rows @
         [\<lparr>row_id = 3, prompt = str_of ''hi'', response = str_of ''hi'', created_at = 10\<rparr>]"
proof -
  have "records (db (snd (serve_generate echo_model 10 hi_body two_rows))) =
       records two_rows @
         [\<lparr>row_id = 3, prompt = str_of ''hi'', response = str_of ''hi'', created_at = 10\<rparr>]"
    by (simp add: gen_defs bind_defs data_defs string_defs Let_def)
  with store_append_only [of "[]" two_rows echo_model 10 hi_body] show ?thesis
    by simp
qed

text \<open>
  C7. On a writable file \<open>init_db\<close> succeeds, leaves the records as they are, and its
  result is a fixed point: a second call changes nothing, and a file that has the table
  is returned as it is. In a run that starts after \<open>init_db\<close>, further calls of
  \<open>init_db\<close> at any place among the requests never fail, and the file at the end is
  the one of the same run without them.
\<close>

theorem init_db_idempotent:
  assumes "writable f"
  shows "\<exists>f'. init_db f = Inr f' \<and> records f' = records f \<and> init_db f' = Inr f'
           \<and> (conversations f \<noteq> None \<longrightarrow> f' = f)
           \<and> (\<forall>rs. \<exists>g. run rs f' = Inr g
                  \<and> run (filter (\<lambda>r. \<not> is_ensure r) rs) f' = Inr g)"
proof -
  from init_db_makes_ready [OF assms] obtain f' where
    f': "init_db f = Inr f'" "ready f'" "records f' = records f"
    by blast
  have "f' = f" if "conversations f \<noteq> None"
    using that assms f'(1) by (auto simp: init_db_def)
  moreover
  have "\<exists>g. run rs f' = Inr g \<and> run (filter (\<lambda>r. \<not> is_ensure r) rs) f' = Inr g" for rs
    using run_skip_ensure [OF f'(2)] by blast
  ultimately show ?thesis
    using f' by (auto simp: init_db_ready)
qed

theorem init_db_idempotent_witness:
  "writable two_rows \<and> init_db two_rows = Inr two_rows
   \<and> writable no_table \<and> init_db no_table = Inr empty_file
   \<and> init_db empty_file = Inr empty_file
   \<and> run [EnsureSchema, Generate echo_model 10 hi_body, EnsureSchema] no_table =
       run [EnsureSchema, Generate echo_model 10 hi_body] no_table"
proof -
  have w: "writable two_rows" "writable no_table"
    by (simp_all add: data_defs)
  have t: "conversations two_rows \<noteq> None"
    by (simp add: two_rows_def)
  have n: "init_db no_table = Inr empty_file"
    by (simp add: init_db_def data_defs)
  from init_db_idempotent [OF w(1)] t have a: "init_db two_rows = Inr two_rows"
    by auto
  from init_db_idempotent [OF w(2)] n obtain
    b: "init_db empty_file = Inr empty_file" and
    c: "\<forall>rs. \<exists>g. run rs empty_file = Inr g
          \<and> run (filter (\<lambda>r. \<not> is_ensure r) rs) empty_file = Inr g"
    by auto
  from c [rule_format, of "[Generate echo_model 10 hi_body, EnsureSchema]"]
  have "run [Generate echo_model 10 hi_body, EnsureSchema] empty_file =
      run [Generate echo_model 10 hi_body] empty_file"
    by auto
  with n have "run [EnsureSchema, Generate echo_model 10 hi_body, EnsureSchema] no_table =
       run [EnsureSchema, Generate echo_model 10 hi_body] no_table"
    by simp
  with w a n b show ?thesis by simp
qed

subsection \<open>The connection of a request\<close>

text \<open>
  C8, as the code has it. A request opens at most one connection: none when it reaches
  no statement, and otherwise exactly one, opened before its first statement, used for
  all its statements, and closed after the last of them. Whatever the handler returned
  or raised, \<open>g\<close> holds no connection when the request has ended, and every connection
  opened was closed. A second \<open>get_db\<close> in a request gives the connection of the first.
\<close>

theorem connection_scoped:
  assumes "s' = snd (serve_generate model now body f) \<or> s' = snd (serve_history args f)"
  shows "g_db s' = None \<and> scoped (trace s')
         \<and> count_list (trace s') Connect = (if list_ex is_access (trace s') then 1 else 0)
         \<and> count_list (trace s') Close = count_list (trace s') Connect
         \<and> get_db (get_db s) = get_db s"
proof -
  have "g_db s' = None"
    using assms by (auto simp: serve_generate_def serve_history_def serve_g)
  moreover
  have "scoped (trace s')
      \<and> count_list (trace s') Connect = (if list_ex is_access (trace s') then 1 else 0)
      \<and> count_list (trace s') Close = count_list (trace s') Connect"
    using assms generate_trace [of model now body f] history_trace [of args f]
    by (auto simp: scoped_def)
  ultimately show ?thesis
    by (simp add: get_db_twice)
qed

theorem connection_scoped_witness:
  "trace (snd (serve_generate echo_model 10 hi_body no_table)) =
     [Oracle (str_of ''hi''), Connect, Insert, Close]
   \<and> fst (serve_generate echo_model 10 hi_body no_table) = ErrorPage 500 OperationalError
   \<and> g_db (snd (serve_generate echo_model 10 hi_body no_table)) = None
   \<and> scoped [Oracle (str_of ''hi''), Connect, Insert, Close]
   \<and> count_list [Oracle (str_of ''hi''), Connect, Insert, Close] Close = 1"
proof -
  have a: "serve_generate echo_model 10 hi_body no_table =
      (ErrorPage 500 OperationalError,
       \<lparr>g_db = None, db = no_table,
        trace = [Oracle (str_of ''hi''), Connect, Insert, Close]\<rparr>)"
    by (simp add: gen_defs bind_defs data_defs string_defs Let_def)
  have "snd (serve_generate echo_model 10 hi_body no_table) =
      snd (serve_generate echo_model 10 hi_body no_table)
      \<or> snd (serve_generate echo_model 10 hi_body no_table) = snd (serve_history [] no_table)"
    by simp
  from connection_scoped [OF this] a show ?thesis
    by (simp add: str_of_def)
qed

text \<open>
  C8 as stated fails: a request whose \<open>limit\<close> does not parse opens no connection.
\<close>

theorem history_bad_limit_no_connection_counterexample:
  "count_list (trace (snd (serve_history [(str_of ''limit'', str_of ''abc'')] two_rows)))
     Connect = 0"
  by (simp add: hist_defs int_defs string_defs Let_def)

end
